theory Spec2Isabelle
  imports Complex_Main
begin

section \<open>Numbers, time and effects\<close>

text \<open>
  The hooks are TypeScript. A \<^verbatim>\<open>number\<close> (wheel delta, touch coordinate, duration,
  \<^verbatim>\<open>Date.now()\<close> timestamp) is modelled as a \<^typ>\<open>real\<close>: the code only takes absolute
  values and signs, subtracts and compares. A section index is an \<^typ>\<open>int\<close>. Every
  handler is synchronous; the instant \<^verbatim>\<open>Date.now()\<close> returns inside one handler run is
  the argument \<open>now\<close> of that handler. Refs and React state become fields of a state
  record that each handler takes and returns; the calls to the host (scrolling an
  element into view, \<^verbatim>\<open>updateURL\<close>) are appended to a log in that record, and the
  pending \<^verbatim>\<open>setTimeout\<close> callbacks are kept there as a queue of deadlines. The
  \<^verbatim>\<open>debug\<close> option only switches console logging and is left out.
\<close>

section \<open>useTouchpadDetection\<close>

record detection_config =
  minTimeGap :: real
  minDelta :: real

text \<open>The three refs \<^verbatim>\<open>lastDeltaRef\<close>, \<^verbatim>\<open>lastDirectionRef\<close>, \<^verbatim>\<open>lastEventTimeRef\<close>.\<close>

record detection_state =
  lastDelta :: real
  lastDirection :: real
  lastEventTime :: real

definition detection_init :: detection_state where
  "detection_init = \<lparr>lastDelta = 0, lastDirection = 0, lastEventTime = 0\<rparr>"

text \<open>\<^verbatim>\<open>detectInertia(e)\<close>: the verdict and the refs after the call; \<open>deltaY\<close> is \<^verbatim>\<open>e.deltaY\<close>.\<close>

definition detectInertia ::
  "detection_config \<Rightarrow> real \<Rightarrow> real \<Rightarrow> detection_state \<Rightarrow> bool \<times> detection_state" where
  "detectInertia cfg deltaY now s =
     (let currentDelta = \<bar>deltaY\<bar>;
          currentDirection = sgn deltaY;
          timeSinceLastEvent = now - lastEventTime s;
          isTimeTooQuick = (timeSinceLastEvent < minTimeGap cfg);
          isSameDirection = (lastDirection s \<noteq> 0 \<and> currentDirection = lastDirection s);
          isDeltaNotIncreasing = (currentDelta \<le> lastDelta s);
          isMomentumScroll = (isTimeTooQuick \<and> isSameDirection \<and> isDeltaNotIncreasing)
      in (isMomentumScroll,
          \<lparr>lastDelta = currentDelta, lastDirection = currentDirection, lastEventTime = now\<rparr>))"

definition isValidDelta :: "detection_config \<Rightarrow> real \<Rightarrow> bool" where
  "isValidDelta cfg deltaY = (let currentDelta = \<bar>deltaY\<bar> in currentDelta \<ge> minDelta cfg)"

text \<open>
  One classifier instance fed a sequence of wheel samples \<open>(deltaY, now)\<close>: the verdicts
  in order and the refs after the last call.
\<close>

fun detectAll ::
  "detection_config \<Rightarrow> (real \<times> real) list \<Rightarrow> detection_state \<Rightarrow> bool list \<times> detection_state" where
  "detectAll cfg [] s = ([], s)"
| "detectAll cfg ((deltaY, now) # es) s =
     (let (v, s') = detectInertia cfg deltaY now s;
          (vs, s'') = detectAll cfg es s'
      in (v # vs, s''))"

text \<open>
  The classification rule in the words of the specification, for a sample of absolute
  magnitude \<open>m\<close>, direction \<open>d\<close> and time \<open>t\<close> against the stored sample.
\<close>

definition spec_momentum :: "real \<Rightarrow> detection_state \<Rightarrow> real \<Rightarrow> real \<Rightarrow> real \<Rightarrow> bool" where
  "spec_momentum gap prev m d t =
     (t - lastEventTime prev < gap
      \<and> (lastDirection prev \<noteq> 0 \<and> d = lastDirection prev)
      \<and> m \<le> lastDelta prev)"

definition sample_state :: "real \<times> real \<Rightarrow> detection_state" where
  "sample_state e = \<lparr>lastDelta = \<bar>fst e\<bar>, lastDirection = sgn (fst e), lastEventTime = snd e\<rparr>"

definition spec_label :: "real \<Rightarrow> detection_state \<times> (real \<times> real) \<Rightarrow> bool" where
  "spec_label gap pe = spec_momentum gap (fst pe) \<bar>fst (snd pe)\<bar> (sgn (fst (snd pe))) (snd (snd pe))"

section \<open>useScrollThrottle\<close>

record throttle_config =
  normalThrottle :: real
  momentumThrottle :: real

text \<open>The ref \<^verbatim>\<open>lastThrottleTimeRef\<close>.\<close>

record throttle_state =
  lastThrottleTime :: real

definition throttle_init :: throttle_state where
  "throttle_init = \<lparr>lastThrottleTime = 0\<rparr>"

datatype throttle_type = Momentum | Normal

record throttle_status =
  statusIsThrottled :: bool
  remainingTime :: real
  effectiveThrottle :: real
  timeSinceLastThrottle :: real
  throttleType :: throttle_type

definition isThrottled :: "throttle_config \<Rightarrow> bool \<Rightarrow> real \<Rightarrow> throttle_state \<Rightarrow> bool" where
  "isThrottled cfg isMomentumScroll now s =
     (let effective = (if isMomentumScroll then momentumThrottle cfg else normalThrottle cfg);
          sinceLast = now - lastThrottleTime s;
          throttled = (sinceLast < effective)
      in throttled)"

definition updateThrottle :: "real \<Rightarrow> throttle_state \<Rightarrow> throttle_state" where
  "updateThrottle now s = s\<lparr>lastThrottleTime := now\<rparr>"

definition getThrottleStatus ::
  "throttle_config \<Rightarrow> bool \<Rightarrow> real \<Rightarrow> throttle_state \<Rightarrow> throttle_status" where
  "getThrottleStatus cfg isMomentumScroll now s =
     (let effective = (if isMomentumScroll then momentumThrottle cfg else normalThrottle cfg);
          sinceLast = now - lastThrottleTime s;
          remaining = max 0 (effective - sinceLast)
      in \<lparr>statusIsThrottled = (remaining > 0),
          remainingTime = remaining,
          effectiveThrottle = effective,
          timeSinceLastThrottle = sinceLast,
          throttleType = (if isMomentumScroll then Momentum else Normal)\<rparr>)"

definition reset :: "throttle_state \<Rightarrow> throttle_state" where
  "reset s = s\<lparr>lastThrottleTime := 0\<rparr>"

section \<open>useScrollContainer (vertical)\<close>

text \<open>
  An element handle is opaque. \<^verbatim>\<open>sectionRefs.current\<close> is the array the host fills
  through its ref callbacks: a slot holds an element or \<^verbatim>\<open>null\<close>. Reading a slot
  that does not exist (a negative index, an index past the end) gives \<^verbatim>\<open>undefined\<close>,
  which is as falsy as \<^verbatim>\<open>null\<close>.
\<close>

type_synonym element = nat

definition refAt :: "element option list \<Rightarrow> int \<Rightarrow> element option" where
  "refAt refs i = (if 0 \<le> i \<and> i < int (length refs) then refs ! nat i else None)"

text \<open>
  What one mounted hook is given and configures: the \<^verbatim>\<open>totalSections\<close> prop, the
  section refs, and the options it passes to the two hooks above.
\<close>

record container_env =
  totalSections :: int
  sectionRefs :: "element option list"
  detectionConfig :: detection_config
  throttleConfig :: throttle_config

definition useScrollContainer :: "int \<Rightarrow> element option list \<Rightarrow> container_env" where
  "useScrollContainer n refs =
     \<lparr>totalSections = n,
      sectionRefs = refs,
      detectionConfig = \<lparr>minTimeGap = 1500, minDelta = 4\<rparr>,
      throttleConfig = \<lparr>normalThrottle = 600, momentumThrottle = 1200\<rparr>\<rparr>"

text \<open>
  The calls to the external collaborators, in the order they are made:
  \<^verbatim>\<open>targetElement.scrollIntoView\<close> (recorded with the index of the target) and the
  \<^verbatim>\<open>updateURL\<close> prop.
\<close>

datatype scroll_behavior = Smooth | Instant

datatype effect = ScrollIntoView int scroll_behavior | UpdateURL int

text \<open>
  The state of one mounted hook: the \<^verbatim>\<open>currentSection\<close> state (a committed
  \<^verbatim>\<open>setCurrentSection\<close> is visible to the next event), the refs of the hook and of the
  two hooks it uses, and the log of external calls. \<open>scrollTimeoutRef\<close> holds the
  handle of the safety timer, identified by its deadline; \<open>pendingTimeouts\<close> is the
  host's timer queue for these timers (the deadlines still to fire).
\<close>

record container_state =
  currentSection :: int
  isScrolling :: bool
  scrollTimeoutRef :: "real option"
  lastScrollTime :: real
  touchStartY :: real
  touchStartTime :: real
  isTouching :: bool
  detection :: detection_state
  throttle :: throttle_state
  pendingTimeouts :: "real list"
  effects :: "effect list"

definition container_init :: container_state where
  "container_init =
     \<lparr>currentSection = 0,
      isScrolling = False,
      scrollTimeoutRef = None,
      lastScrollTime = 0,
      touchStartY = 0,
      touchStartTime = 0,
      isTouching = False,
      detection = detection_init,
      throttle = throttle_init,
      pendingTimeouts = [],
      effects = []\<rparr>"

definition clearTimeout :: "real \<Rightarrow> container_state \<Rightarrow> container_state" where
  "clearTimeout h st = st\<lparr>pendingTimeouts := remove1 h (pendingTimeouts st)\<rparr>"

definition setTimeout :: "real \<Rightarrow> container_state \<Rightarrow> container_state" where
  "setTimeout deadline st =
     st\<lparr>pendingTimeouts := pendingTimeouts st @ [deadline], scrollTimeoutRef := Some deadline\<rparr>"

text \<open>
  The host runs the callbacks of the safety timers whose deadline has passed; each
  callback is \<^verbatim>\<open>isScrollingRef.current = false\<close> and leaves the handle in the ref.
\<close>

definition fireTimeouts :: "real \<Rightarrow> container_state \<Rightarrow> container_state" where
  "fireTimeouts now st =
     (if filter (\<lambda>d. d \<le> now) (pendingTimeouts st) = [] then st
      else st\<lparr>isScrolling := False,
              pendingTimeouts := filter (\<lambda>d. \<not> d \<le> now) (pendingTimeouts st)\<rparr>)"

definition scrollToSection :: "container_env \<Rightarrow> int \<Rightarrow> real \<Rightarrow> container_state \<Rightarrow> container_state" where
  "scrollToSection env sectionIndex now st =
     (case refAt (sectionRefs env) sectionIndex of
        None \<Rightarrow> st
      | Some targetElement \<Rightarrow>
          (let st1 = st\<lparr>isScrolling := True, lastScrollTime := now\<rparr>;
               st2 = (case scrollTimeoutRef st1 of None \<Rightarrow> st1 | Some h \<Rightarrow> clearTimeout h st1);
               st3 = setTimeout (now + 2000) st2;
               st4 = st3\<lparr>effects := effects st3 @ [ScrollIntoView sectionIndex Smooth]\<rparr>;
               st5 = st4\<lparr>currentSection := sectionIndex\<rparr>;
               st6 = st5\<lparr>effects := effects st5 @ [UpdateURL sectionIndex]\<rparr>
           in st6\<lparr>throttle := updateThrottle now (throttle st6)\<rparr>))"

definition handlePopStateNavigation :: "container_env \<Rightarrow> int \<Rightarrow> container_state \<Rightarrow> container_state" where
  "handlePopStateNavigation env sectionIndex st =
     (case refAt (sectionRefs env) sectionIndex of
        None \<Rightarrow> st
      | Some targetElement \<Rightarrow>
          st\<lparr>effects := effects st @ [ScrollIntoView sectionIndex Smooth],
             currentSection := sectionIndex\<rparr>)"

definition handleURLSectionChange ::
  "container_env \<Rightarrow> int \<Rightarrow> scroll_behavior \<Rightarrow> container_state \<Rightarrow> container_state" where
  "handleURLSectionChange env sectionIndex behavior st =
     (case refAt (sectionRefs env) sectionIndex of
        None \<Rightarrow> st
      | Some targetElement \<Rightarrow>
          st\<lparr>effects := effects st @ [ScrollIntoView sectionIndex behavior],
             currentSection := sectionIndex\<rparr>)"

text \<open>
  The intersection observer's callback on one entry \<open>(isIntersecting, intersectionRatio)\<close>,
  and on the entries of one notification.
\<close>

definition observeEntry :: "bool \<times> real \<Rightarrow> container_state \<Rightarrow> container_state" where
  "observeEntry entry st =
     (if fst entry \<and> snd entry > 0.5 then
        (let st1 = (case scrollTimeoutRef st of
                      None \<Rightarrow> st
                    | Some h \<Rightarrow> (clearTimeout h st)\<lparr>scrollTimeoutRef := None\<rparr>)
         in st1\<lparr>isScrolling := False\<rparr>)
      else st)"

definition observerCallback :: "(bool \<times> real) list \<Rightarrow> container_state \<Rightarrow> container_state" where
  "observerCallback entries st = fold observeEntry entries st"

definition checkStuckState :: "real \<Rightarrow> container_state \<Rightarrow> container_state" where
  "checkStuckState now st =
     (if isScrolling st \<and> now - lastScrollTime st > 5000 then
        (let st1 = st\<lparr>isScrolling := False\<rparr>
         in (case scrollTimeoutRef st1 of
               None \<Rightarrow> st1
             | Some h \<Rightarrow> (clearTimeout h st1)\<lparr>scrollTimeoutRef := None\<rparr>))
      else st)"

text \<open>
  \<^verbatim>\<open>throttledWheelHandler(e)\<close>, with \<open>deltaY\<close> for \<^verbatim>\<open>e.deltaY\<close>. The call
  \<^verbatim>\<open>e.preventDefault()\<close> acts on the event only and is not recorded.
\<close>

definition throttledWheelHandler ::
  "container_env \<Rightarrow> real \<Rightarrow> real \<Rightarrow> container_state \<Rightarrow> container_state" where
  "throttledWheelHandler env deltaY now st =
     (let (isMomentumScroll, det) = detectInertia (detectionConfig env) deltaY now (detection st);
          st1 = st\<lparr>detection := det\<rparr>
      in if \<not> isValidDelta (detectionConfig env) deltaY then st1
         else if isScrolling st1 then st1
         else if isThrottled (throttleConfig env) isMomentumScroll now (throttle st1) then st1
         else
           (let direction = (if deltaY > 0 then 1 else - 1);
                nextSection = currentSection st1 + direction
            in if nextSection \<ge> 0 \<and> nextSection < totalSections env
               then scrollToSection env nextSection now st1
               else st1))"

definition handleTouchStart :: "real \<Rightarrow> real \<Rightarrow> container_state \<Rightarrow> container_state" where
  "handleTouchStart clientY now st =
     (if isScrolling st then st
      else st\<lparr>touchStartY := clientY, touchStartTime := now, isTouching := True\<rparr>)"

text \<open>\<^verbatim>\<open>handleTouchMove\<close> only calls \<^verbatim>\<open>e.preventDefault()\<close> while a touch is active.\<close>

definition handleTouchMove :: "container_state \<Rightarrow> container_state" where
  "handleTouchMove st = st"

definition MIN_TOUCH_DISTANCE :: real where
  "MIN_TOUCH_DISTANCE = 50"

definition MAX_TOUCH_TIME :: real where
  "MAX_TOUCH_TIME = 800"

definition handleTouchEnd ::
  "container_env \<Rightarrow> real \<Rightarrow> real \<Rightarrow> container_state \<Rightarrow> container_state" where
  "handleTouchEnd env touchEndY touchEndTime st =
     (if \<not> isTouching st then st
      else
        (let deltaY = touchStartY st - touchEndY;
             deltaTime = touchEndTime - touchStartTime st;
             distance = \<bar>deltaY\<bar>;
             st1 = st\<lparr>isTouching := False\<rparr>
         in if distance < MIN_TOUCH_DISTANCE then st1
            else if deltaTime > MAX_TOUCH_TIME then st1
            else if isThrottled (throttleConfig env) False touchEndTime (throttle st1) then st1
            else
              (let direction = (if deltaY > 0 then 1 else - 1);
                   nextSection = currentSection st1 + direction
               in if nextSection \<ge> 0 \<and> nextSection < totalSections env
                  then scrollToSection env nextSection touchEndTime st1
                  else st1)))"

definition handleTouchCancel :: "container_state \<Rightarrow> container_state" where
  "handleTouchCancel st = st\<lparr>isTouching := False\<rparr>"

subsection \<open>The event loop\<close>

text \<open>
  Everything that can reach a mounted hook: the window's wheel and touch events, a
  notification of the intersection observer, a tick of the one-second interval, and the
  three functions the hook returns to its host.
\<close>

datatype event =
    Wheel real
  | TouchStart real
  | TouchMove
  | TouchEnd real
  | TouchCancel
  | Intersection "(bool \<times> real) list"
  | IntervalTick
  | CallScrollToSection int
  | CallPopState int
  | CallURLSectionChange int scroll_behavior

fun handle :: "container_env \<Rightarrow> real \<Rightarrow> event \<Rightarrow> container_state \<Rightarrow> container_state" where
  "handle env now (Wheel deltaY) st = throttledWheelHandler env deltaY now st"
| "handle env now (TouchStart clientY) st = handleTouchStart clientY now st"
| "handle env now TouchMove st = handleTouchMove st"
| "handle env now (TouchEnd clientY) st = handleTouchEnd env clientY now st"
| "handle env now TouchCancel st = handleTouchCancel st"
| "handle env now (Intersection entries) st = observerCallback entries st"
| "handle env now IntervalTick st = checkStuckState now st"
| "handle env now (CallScrollToSection i) st = scrollToSection env i now st"
| "handle env now (CallPopState i) st = handlePopStateNavigation env i st"
| "handle env now (CallURLSectionChange i b) st = handleURLSectionChange env i b st"

text \<open>
  One turn of the event loop at instant \<open>now\<close>: the safety timers whose deadline
  is not after \<open>now\<close> run first, then the handler of the event. A run takes the events
  in delivery order, each with its instant.
\<close>

definition deliver :: "container_env \<Rightarrow> real \<times> event \<Rightarrow> container_state \<Rightarrow> container_state" where
  "deliver env te st = handle env (fst te) (snd te) (fireTimeouts (fst te) st)"

definition run :: "container_env \<Rightarrow> (real \<times> event) list \<Rightarrow> container_state \<Rightarrow> container_state" where
  "run env tes st = fold (deliver env) tes st"

text \<open>
  The navigation state of the specification: current index, in-transition flag, start
  of the transition, and the throttle's timestamp; with it, the log of external calls.
\<close>

definition nav :: "container_state \<Rightarrow> int \<times> bool \<times> real \<times> real \<times> effect list" where
  "nav st = (currentSection st, isScrolling st, lastScrollTime st,
             lastThrottleTime (throttle st), effects st)"

text \<open>The states after each event of a run, in order.\<close>

fun runStates :: "container_env \<Rightarrow> (real \<times> event) list \<Rightarrow> container_state \<Rightarrow> container_state list" where
  "runStates env [] st = []"
| "runStates env (te # tes) st = deliver env te st # runStates env tes (deliver env te st)"

subsection \<open>Concrete hosts and traces\<close>

text \<open>
  The demo page mounts the hook with five sections and registers an element for each.
\<close>

definition demo_refs :: "element option list" where
  "demo_refs = [Some 0, Some 1, Some 2, Some 3, Some 4]"

definition demo_env :: container_env where
  "demo_env = useScrollContainer 5 demo_refs"

text \<open>A host with four sections, and one that registers more elements than it counts.\<close>

definition four_env :: container_env where
  "four_env = useScrollContainer 4 [Some 0, Some 1, Some 2, Some 3]"

definition short_env :: container_env where
  "short_env = useScrollContainer 2 [Some 0, Some 1, Some 2]"

text \<open>
  The wheel trace of the end-to-end scenario, its instants counted from \<open>origin\<close>; and
  the same trace when the observer reports the first target in view before the second
  event arrives.
\<close>

definition scenario :: "real \<Rightarrow> (real \<times> event) list" where
  "scenario origin =
     [(origin, Wheel 50), (origin + 20, Wheel 40), (origin + 45, Wheel 28),
      (origin + 5000, Wheel 10)]"

definition scenario_confirmed :: "real \<Rightarrow> (real \<times> event) list" where
  "scenario_confirmed origin =
     [(origin, Wheel 50), (origin + 15, Intersection [(True, 1)]), (origin + 20, Wheel 40),
      (origin + 45, Wheel 28), (origin + 5000, Wheel 10)]"

text \<open>
  A swipe accepted at 10000 and confirmed in view at 10500, followed by a tail sample
  of the same swipe at 10610; in the second trace a noise sample precedes the tail.
\<close>

definition tail_trace :: "(real \<times> event) list" where
  "tail_trace = [(10000, Wheel 50), (10500, Intersection [(True, 1)]), (10610, Wheel 40)]"

definition noisy_tail_trace :: "(real \<times> event) list" where
  "noisy_tail_trace =
     [(10000, Wheel 50), (10500, Intersection [(True, 1)]), (10590, Wheel 2), (10610, Wheel 40)]"


section \<open>Properties\<close>

lemmas hook_defs =
  run_def deliver_def useScrollContainer_def container_init_def
  fireTimeouts_def handleTouchStart_def handleTouchEnd_def handleTouchCancel_def handleTouchMove_def
  throttledWheelHandler_def detectInertia_def isValidDelta_def isThrottled_def
  detection_init_def throttle_init_def scrollToSection_def refAt_def setTimeout_def clearTimeout_def
  updateThrottle_def observerCallback_def observeEntry_def checkStuckState_def
  handlePopStateNavigation_def handleURLSectionChange_def MIN_TOUCH_DISTANCE_def MAX_TOUCH_TIME_def
  nav_def Let_def

lemmas host_defs = demo_env_def demo_refs_def

subsection \<open>Helper lemmas\<close>

lemma detectAll_spec:
  "detectAll cfg es s =
     (map (spec_label (minTimeGap cfg)) (zip (s # map sample_state es) es),
      last (s # map sample_state es))"
proof (induction es arbitrary: s)
  case Nil
  show ?case by simp
next
  case (Cons e es)
  obtain deltaY now where e: "e = (deltaY, now)" by (cases e)
  have step: "detectInertia cfg deltaY now s
                = (spec_label (minTimeGap cfg) (s, e), sample_state e)"
    by (simp add: detectInertia_def spec_label_def spec_momentum_def sample_state_def e Let_def)
  show ?case
    by (simp add: e step Cons.IH split: prod.splits)
qed

lemma nav_wheel_locked:
  "isScrolling st \<Longrightarrow> nav (throttledWheelHandler env deltaY now st) = nav st"
  by (simp add: throttledWheelHandler_def nav_def Let_def split: prod.splits)

lemma wheel_locked_state:
  "isScrolling st \<Longrightarrow>
     throttledWheelHandler env deltaY now st
       = st\<lparr>detection := snd (detectInertia (detectionConfig env) deltaY now (detection st))\<rparr>"
  by (simp add: throttledWheelHandler_def Let_def split: prod.splits)

lemma isScrolling_wheel_locked:
  "isScrolling st \<Longrightarrow> isScrolling (throttledWheelHandler env deltaY now st)"
  by (simp add: throttledWheelHandler_def Let_def split: prod.splits)

lemma refAt_outside:
  "i < 0 \<or> int (length refs) \<le> i \<Longrightarrow> refAt refs i = None"
  by (auto simp: refAt_def)

lemma touch_end_flag:
  "currentSection (handleTouchEnd env y t (st\<lparr>isScrolling := b\<rparr>))
     = currentSection (handleTouchEnd env y t st)
   \<and> throttle (handleTouchEnd env y t (st\<lparr>isScrolling := b\<rparr>))
     = throttle (handleTouchEnd env y t st)
   \<and> effects (handleTouchEnd env y t (st\<lparr>isScrolling := b\<rparr>))
     = effects (handleTouchEnd env y t st)"
  by (simp add: handleTouchEnd_def scrollToSection_def setTimeout_def clearTimeout_def
      updateThrottle_def Let_def split: option.splits)

subsection \<open>The gesture classifier\<close>

text \<open>
  Claim C1. For every sequence of samples fed to one classifier, \<open>detectInertia\<close>
  labels a sample of absolute magnitude \<open>m\<close>, direction \<open>d\<close> and time \<open>t\<close> as momentum
  exactly when \<open>t - lastEventTime < minTimeGap\<close>, the stored direction is not \<open>0\<close> and
  equals \<open>d\<close>, and \<open>m \<le> lastDelta\<close>; after the call the refs hold exactly \<open>(m, d, t)\<close>.
  Over a whole sequence each verdict is the rule applied to the sample and its
  predecessor (the initial refs for the first), the first sample of a fresh stream is
  intentional, and the truth table of the specification evaluates as stated.
\<close>

theorem detectInertia_classification:
  "fst (detectInertia cfg deltaY now s)
     = spec_momentum (minTimeGap cfg) s \<bar>deltaY\<bar> (sgn deltaY) now
   \<and> snd (detectInertia cfg deltaY now s)
     = \<lparr>lastDelta = \<bar>deltaY\<bar>, lastDirection = sgn deltaY, lastEventTime = now\<rparr>
   \<and> detectAll cfg es s
     = (map (spec_label (minTimeGap cfg)) (zip (s # map sample_state es) es),
        last (s # map sample_state es))
   \<and> fst (detectAll cfg ((deltaY, now) # es) detection_init)
     = False # fst (detectAll cfg es (sample_state (deltaY, now)))
   \<and> detectAll \<lparr>minTimeGap = 1500, minDelta = 4\<rparr> [(50, 0), (40, 10), (60, 2000)] detection_init
     = ([False, True, False], \<lparr>lastDelta = 60, lastDirection = 1, lastEventTime = 2000\<rparr>)"
proof (intro conjI)
  show "detectAll cfg es s
     = (map (spec_label (minTimeGap cfg)) (zip (s # map sample_state es) es),
        last (s # map sample_state es))"
    by (rule detectAll_spec)
qed (simp_all add: detectInertia_def spec_momentum_def detection_init_def sample_state_def Let_def split: prod.splits)

subsection \<open>The adaptive throttle\<close>

text \<open>
  Claim C2. \<open>isThrottled\<close> is true exactly when \<open>now - lastThrottleTime\<close> is below the
  effective duration, \<open>momentumThrottle\<close> for a momentum verdict and \<open>normalThrottle\<close>
  otherwise; with durations 600 and 1800, after \<open>updateThrottle\<close> at \<open>0\<close> the normal
  tier is closed at 599 and open at 600, the momentum tier closed at 1799 and open at
  1800.
\<close>

theorem isThrottled_gate:
  "isThrottled cfg isMomentum now s
     = (now - lastThrottleTime s < (if isMomentum then momentumThrottle cfg else normalThrottle cfg))
   \<and> isThrottled \<lparr>normalThrottle = 600, momentumThrottle = 1800\<rparr> False 599 (updateThrottle 0 s)
   \<and> \<not> isThrottled \<lparr>normalThrottle = 600, momentumThrottle = 1800\<rparr> False 600 (updateThrottle 0 s)
   \<and> isThrottled \<lparr>normalThrottle = 600, momentumThrottle = 1800\<rparr> True 1799 (updateThrottle 0 s)
   \<and> \<not> isThrottled \<lparr>normalThrottle = 600, momentumThrottle = 1800\<rparr> True 1800 (updateThrottle 0 s)"
  by (simp add: isThrottled_def updateThrottle_def)

text \<open>
  Claim C10. The verdict \<open>getThrottleStatus\<close> reports (\<open>remainingTime > 0\<close>, with
  \<open>remainingTime = max 0 (effective - sinceLast)\<close>) equals the one \<open>isThrottled\<close>
  returns (\<open>sinceLast < effective\<close>) for every state, instant and tier, the expiry
  boundary included.
\<close>

theorem getThrottleStatus_agrees_isThrottled:
  "statusIsThrottled (getThrottleStatus cfg isMomentum now s) = isThrottled cfg isMomentum now s"
  by (auto simp: getThrottleStatus_def isThrottled_def Let_def max_def)

subsection \<open>Steps while a transition is in flight\<close>

text \<open>
  A swipe that began while the hook was idle can end while a transition started by
  another input is in flight. \<open>handleTouchEnd\<close> does not read \<open>isScrolling\<close>: with
  the normal throttle expired it moves on, here from section 1 to section 2 while
  \<open>isScrolling\<close> is true.
\<close>

theorem touch_end_in_transition_counterexample:
  "isScrolling (run demo_env [(1000, TouchStart 200), (1010, Wheel 50)] container_init)
   \<and> nav (run demo_env [(1000, TouchStart 200), (1010, Wheel 50)] container_init)
       = (1, True, 1010, 1010, [ScrollIntoView 1 Smooth, UpdateURL 1])
   \<and> nav (deliver demo_env (1700, TouchEnd 100)
            (run demo_env [(1000, TouchStart 200), (1010, Wheel 50)] container_init))
       = (2, True, 1700, 1700,
          [ScrollIntoView 1 Smooth, UpdateURL 1, ScrollIntoView 2 Smooth, UpdateURL 2])"
  by (simp add: hook_defs host_defs)

text \<open>
  Claim C3, amended. While \<open>isScrolling\<close> is true a wheel event changes nothing in the
  state of the hook but the classifier's stored sample: the current section, the flag,
  the start of the transition, the throttle timestamp and the log of external calls are
  as before, so two wheel events in a row in that state add no section change. A
  touch-start in that state leaves the state unchanged; when no touch is active
  (\<open>isTouching\<close> false), the touch-end that follows it returns at once, so the whole
  swipe is ignored. The flag is not read at touch-end: the section, throttle timestamp
  and external calls a touch-end produces, for a touch that was active before the
  transition, are those it produces with the flag cleared.
\<close>

theorem gesture_ignored_in_transition:
  assumes "isScrolling st"
  shows "throttledWheelHandler env deltaY now st
          = st\<lparr>detection := snd (detectInertia (detectionConfig env) deltaY now (detection st))\<rparr>
     \<and> nav (throttledWheelHandler env deltaY now st) = nav st
     \<and> nav (throttledWheelHandler env deltaY' now' (throttledWheelHandler env deltaY now st)) = nav st
     \<and> handleTouchStart clientY now st = st
     \<and> (\<not> isTouching st \<longrightarrow>
          handleTouchEnd env clientY' now' (handleTouchStart clientY now st) = st)
     \<and> currentSection (handleTouchEnd env clientY' now' st)
          = currentSection (handleTouchEnd env clientY' now' (st\<lparr>isScrolling := False\<rparr>))
     \<and> throttle (handleTouchEnd env clientY' now' st)
          = throttle (handleTouchEnd env clientY' now' (st\<lparr>isScrolling := False\<rparr>))
     \<and> effects (handleTouchEnd env clientY' now' st)
          = effects (handleTouchEnd env clientY' now' (st\<lparr>isScrolling := False\<rparr>))"
proof (intro conjI)
  show "throttledWheelHandler env deltaY now st
          = st\<lparr>detection := snd (detectInertia (detectionConfig env) deltaY now (detection st))\<rparr>"
    using assms by (rule wheel_locked_state)
  show "nav (throttledWheelHandler env deltaY now st) = nav st"
    using assms by (rule nav_wheel_locked)
  show "nav (throttledWheelHandler env deltaY' now' (throttledWheelHandler env deltaY now st)) = nav st"
    using assms by (simp add: nav_wheel_locked isScrolling_wheel_locked)
  show "handleTouchStart clientY now st = st"
    using assms by (simp add: handleTouchStart_def)
  show "\<not> isTouching st \<longrightarrow> handleTouchEnd env clientY' now' (handleTouchStart clientY now st) = st"
    using assms by (simp add: handleTouchStart_def handleTouchEnd_def)
  show "currentSection (handleTouchEnd env clientY' now' st)
          = currentSection (handleTouchEnd env clientY' now' (st\<lparr>isScrolling := False\<rparr>))"
    by (simp add: touch_end_flag)
  show "throttle (handleTouchEnd env clientY' now' st)
          = throttle (handleTouchEnd env clientY' now' (st\<lparr>isScrolling := False\<rparr>))"
    by (simp add: touch_end_flag)
  show "effects (handleTouchEnd env clientY' now' st)
          = effects (handleTouchEnd env clientY' now' (st\<lparr>isScrolling := False\<rparr>))"
    by (simp add: touch_end_flag)
qed

theorem gesture_ignored_in_transition_witness:
  "isScrolling (run demo_env [(1000, Wheel 50)] container_init)
   \<and> \<not> isTouching (run demo_env [(1000, Wheel 50)] container_init)
   \<and> nav (run demo_env [(1000, Wheel 50)] container_init)
       = (1, True, 1000, 1000, [ScrollIntoView 1 Smooth, UpdateURL 1])
   \<and> throttledWheelHandler demo_env 55 1650 (run demo_env [(1000, Wheel 50)] container_init)
       = (run demo_env [(1000, Wheel 50)] container_init)
           \<lparr>detection := \<lparr>lastDelta = 55, lastDirection = 1, lastEventTime = 1650\<rparr>\<rparr>
   \<and> nav (throttledWheelHandler demo_env 60 1700
            (throttledWheelHandler demo_env 55 1650 (run demo_env [(1000, Wheel 50)] container_init)))
       = (1, True, 1000, 1000, [ScrollIntoView 1 Smooth, UpdateURL 1])
   \<and> handleTouchEnd demo_env 100 1700
        (handleTouchStart 200 1650 (run demo_env [(1000, Wheel 50)] container_init))
       = run demo_env [(1000, Wheel 50)] container_init
   \<and> isScrolling (run demo_env [(1000, TouchStart 200), (1010, Wheel 50)] container_init)
   \<and> isTouching (run demo_env [(1000, TouchStart 200), (1010, Wheel 50)] container_init)
   \<and> handleTouchStart 500 1650 (run demo_env [(1000, TouchStart 200), (1010, Wheel 50)] container_init)
       = run demo_env [(1000, TouchStart 200), (1010, Wheel 50)] container_init
   \<and> currentSection (handleTouchEnd demo_env 100 1700
        (run demo_env [(1000, TouchStart 200), (1010, Wheel 50)] container_init)) = 2
   \<and> throttle (handleTouchEnd demo_env 100 1700
        (run demo_env [(1000, TouchStart 200), (1010, Wheel 50)] container_init))
       = \<lparr>lastThrottleTime = 1700\<rparr>
   \<and> effects (handleTouchEnd demo_env 100 1700
        (run demo_env [(1000, TouchStart 200), (1010, Wheel 50)] container_init))
       = [ScrollIntoView 1 Smooth, UpdateURL 1, ScrollIntoView 2 Smooth, UpdateURL 2]"
proof -
  have locked: "isScrolling (run demo_env [(1000, Wheel 50)] container_init)"
    by (simp add: hook_defs host_defs)
  have idle_touch: "\<not> isTouching (run demo_env [(1000, Wheel 50)] container_init)"
    by (simp add: hook_defs host_defs)
  have before: "nav (run demo_env [(1000, Wheel 50)] container_init)
       = (1, True, 1000, 1000, [ScrollIntoView 1 Smooth, UpdateURL 1])"
    by (simp add: hook_defs host_defs)
  have sample: "snd (detectInertia (detectionConfig demo_env) 55 1650
                  (detection (run demo_env [(1000, Wheel 50)] container_init)))
       = \<lparr>lastDelta = 55, lastDirection = 1, lastEventTime = 1650\<rparr>"
    by (simp add: detectInertia_def Let_def)
  note ignored = gesture_ignored_in_transition
         [OF locked, where env = demo_env and deltaY = 55 and now = 1650
            and deltaY' = 60 and now' = 1700 and clientY = 200 and clientY' = 100]
  have wheel: "throttledWheelHandler demo_env 55 1650 (run demo_env [(1000, Wheel 50)] container_init)
       = (run demo_env [(1000, Wheel 50)] container_init)
           \<lparr>detection := \<lparr>lastDelta = 55, lastDirection = 1, lastEventTime = 1650\<rparr>\<rparr>"
    by (rule trans [OF ignored [THEN conjunct1]]) (simp only: sample)
  have wheels: "nav (throttledWheelHandler demo_env 60 1700
            (throttledWheelHandler demo_env 55 1650 (run demo_env [(1000, Wheel 50)] container_init)))
       = (1, True, 1000, 1000, [ScrollIntoView 1 Smooth, UpdateURL 1])"
    by (rule trans [OF ignored [THEN conjunct2, THEN conjunct2, THEN conjunct1] before])
  have swipe: "handleTouchEnd demo_env 100 1700
        (handleTouchStart 200 1650 (run demo_env [(1000, Wheel 50)] container_init))
       = run demo_env [(1000, Wheel 50)] container_init"
    by (rule ignored [THEN conjunct2, THEN conjunct2, THEN conjunct2, THEN conjunct2,
              THEN conjunct1, THEN mp, OF idle_touch])
  have locked': "isScrolling (run demo_env [(1000, TouchStart 200), (1010, Wheel 50)] container_init)"
    by (simp add: hook_defs host_defs)
  have touching: "isTouching (run demo_env [(1000, TouchStart 200), (1010, Wheel 50)] container_init)"
    by (simp add: hook_defs host_defs)
  note active = gesture_ignored_in_transition
         [OF locked', where env = demo_env and now = 1650 and now' = 1700
            and clientY = 500 and clientY' = 100]
  have unlocked: "currentSection (handleTouchEnd demo_env 100 1700
          ((run demo_env [(1000, TouchStart 200), (1010, Wheel 50)] container_init)
             \<lparr>isScrolling := False\<rparr>)) = 2
     \<and> throttle (handleTouchEnd demo_env 100 1700
          ((run demo_env [(1000, TouchStart 200), (1010, Wheel 50)] container_init)
             \<lparr>isScrolling := False\<rparr>)) = \<lparr>lastThrottleTime = 1700\<rparr>
     \<and> effects (handleTouchEnd demo_env 100 1700
          ((run demo_env [(1000, TouchStart 200), (1010, Wheel 50)] container_init)
             \<lparr>isScrolling := False\<rparr>))
         = [ScrollIntoView 1 Smooth, UpdateURL 1, ScrollIntoView 2 Smooth, UpdateURL 2]"
    by (simp add: hook_defs host_defs)
  have restart: "handleTouchStart 500 1650
        (run demo_env [(1000, TouchStart 200), (1010, Wheel 50)] container_init)
       = run demo_env [(1000, TouchStart 200), (1010, Wheel 50)] container_init"
    by (rule active [THEN conjunct2, THEN conjunct2, THEN conjunct2, THEN conjunct1])
  have index: "currentSection (handleTouchEnd demo_env 100 1700
        (run demo_env [(1000, TouchStart 200), (1010, Wheel 50)] container_init)) = 2"
    by (rule trans [OF active [THEN conjunct2, THEN conjunct2, THEN conjunct2, THEN conjunct2,
                                THEN conjunct2, THEN conjunct1]
                       unlocked [THEN conjunct1]])
  have stamp: "throttle (handleTouchEnd demo_env 100 1700
        (run demo_env [(1000, TouchStart 200), (1010, Wheel 50)] container_init))
       = \<lparr>lastThrottleTime = 1700\<rparr>"
    by (rule trans [OF active [THEN conjunct2, THEN conjunct2, THEN conjunct2, THEN conjunct2,
                                THEN conjunct2, THEN conjunct2, THEN conjunct1]
                       unlocked [THEN conjunct2, THEN conjunct1]])
  have calls: "effects (handleTouchEnd demo_env 100 1700
        (run demo_env [(1000, TouchStart 200), (1010, Wheel 50)] container_init))
       = [ScrollIntoView 1 Smooth, UpdateURL 1, ScrollIntoView 2 Smooth, UpdateURL 2]"
    by (rule trans [OF active [THEN conjunct2, THEN conjunct2, THEN conjunct2, THEN conjunct2,
                                THEN conjunct2, THEN conjunct2, THEN conjunct2]
                       unlocked [THEN conjunct2, THEN conjunct2]])
  show ?thesis
    by (intro conjI)
       (rule locked, rule idle_touch, rule before, rule wheel, rule wheels, rule swipe,
        rule locked', rule touching, rule restart, rule index, rule stamp, rule calls)
qed

subsection \<open>Jumps by cause\<close>

text \<open>
  \<open>handlePopStateNavigation\<close> and \<open>handleURLSectionChange\<close> scroll and set the current
  section, and touch neither \<open>isScrolling\<close> nor \<open>lastScrollTime\<close>.
\<close>

theorem popstate_does_not_lock_counterexample:
  "refAt (sectionRefs demo_env) 2 = Some 2
   \<and> nav (handlePopStateNavigation demo_env 2 container_init)
       = (2, False, 0, 0, [ScrollIntoView 2 Smooth])
   \<and> nav (handleURLSectionChange demo_env 2 Instant container_init)
       = (2, False, 0, 0, [ScrollIntoView 2 Instant])"
  by (simp add: hook_defs host_defs)

text \<open>
  Claim C4, amended. With an element registered for the target, \<open>scrollToSection\<close>
  (gesture steps and the direct call) sets \<open>isScrolling\<close>, records \<open>lastScrollTime = now\<close>,
  sets the current section, requests the scroll, calls \<open>updateURL\<close> and
  \<open>updateThrottle\<close>; \<open>handlePopStateNavigation\<close> and \<open>handleURLSectionChange\<close> request
  the scroll and set the current section only: flag, start of transition and throttle
  timestamp keep their values and \<open>updateURL\<close> is not called.
\<close>

theorem jump_effects_by_cause:
  assumes "refAt (sectionRefs env) i = Some el"
  shows "nav (scrollToSection env i now st)
           = (i, True, now, now, effects st @ [ScrollIntoView i Smooth, UpdateURL i])
     \<and> nav (handlePopStateNavigation env i st)
           = (i, isScrolling st, lastScrollTime st, lastThrottleTime (throttle st),
              effects st @ [ScrollIntoView i Smooth])
     \<and> nav (handleURLSectionChange env i b st)
           = (i, isScrolling st, lastScrollTime st, lastThrottleTime (throttle st),
              effects st @ [ScrollIntoView i b])"
  using assms
  by (simp add: scrollToSection_def handlePopStateNavigation_def handleURLSectionChange_def
      nav_def setTimeout_def clearTimeout_def updateThrottle_def Let_def split: option.splits)

theorem jump_effects_by_cause_witness:
  "refAt (sectionRefs demo_env) 3 = Some 3
   \<and> nav (scrollToSection demo_env 3 1000 container_init)
        = (3, True, 1000, 1000, [ScrollIntoView 3 Smooth, UpdateURL 3])
   \<and> nav (handlePopStateNavigation demo_env 3 container_init)
        = (3, False, 0, 0, [ScrollIntoView 3 Smooth])
   \<and> nav (handleURLSectionChange demo_env 3 Instant container_init)
        = (3, False, 0, 0, [ScrollIntoView 3 Instant])"
proof -
  have registered: "refAt (sectionRefs demo_env) 3 = Some 3"
    by (simp add: hook_defs host_defs)
  from jump_effects_by_cause [OF registered, of 1000 container_init Instant] registered
  show ?thesis by (simp add: container_init_def throttle_init_def)
qed

subsection \<open>Targets without an element\<close>

text \<open>
  \<open>scrollToSection\<close> tests the registered element, not \<open>totalSections\<close>: a host that
  counts two sections and registers three elements can jump to index 2.
\<close>

theorem scrollToSection_out_of_range_counterexample:
  "totalSections short_env = 2
   \<and> nav (scrollToSection short_env 2 1000 container_init)
       = (2, True, 1000, 1000, [ScrollIntoView 2 Smooth, UpdateURL 2])"
  by (simp add: hook_defs short_env_def)

text \<open>
  Claim C6, amended. A jump to an index with no registered element is a no-op for each
  of the three entry points: the whole state, log of external calls included, is
  unchanged. When the host registers no element at or beyond \<open>totalSections\<close>, every
  index outside \<open>[0, totalSections - 1]\<close> is such an index.
\<close>

theorem unregistered_target_noop:
  "(refAt (sectionRefs env) i = None \<longrightarrow>
       scrollToSection env i now st = st
     \<and> handlePopStateNavigation env i st = st
     \<and> handleURLSectionChange env i b st = st)
   \<and> (int (length (sectionRefs env)) \<le> totalSections env \<and> (i < 0 \<or> totalSections env \<le> i) \<longrightarrow>
       scrollToSection env i now st = st
     \<and> handlePopStateNavigation env i st = st
     \<and> handleURLSectionChange env i b st = st)"
proof (rule conjI; rule impI)
  assume absent: "refAt (sectionRefs env) i = None"
  then show "scrollToSection env i now st = st
     \<and> handlePopStateNavigation env i st = st
     \<and> handleURLSectionChange env i b st = st"
    by (simp add: scrollToSection_def handlePopStateNavigation_def handleURLSectionChange_def)
next
  assume outside: "int (length (sectionRefs env)) \<le> totalSections env
     \<and> (i < 0 \<or> totalSections env \<le> i)"
  then have "i < 0 \<or> int (length (sectionRefs env)) \<le> i"
    by auto
  then have "refAt (sectionRefs env) i = None"
    by (rule refAt_outside)
  then show "scrollToSection env i now st = st
     \<and> handlePopStateNavigation env i st = st
     \<and> handleURLSectionChange env i b st = st"
    by (simp add: scrollToSection_def handlePopStateNavigation_def handleURLSectionChange_def)
qed

theorem unregistered_target_noop_witness:
  "int (length (sectionRefs demo_env)) \<le> totalSections demo_env
   \<and> refAt (sectionRefs demo_env) 5 = None
   \<and> scrollToSection demo_env 5 1000 container_init = container_init
   \<and> scrollToSection demo_env (- 1) 1000 container_init = container_init
   \<and> handlePopStateNavigation demo_env 5 container_init = container_init
   \<and> handleURLSectionChange demo_env (- 1) Smooth container_init = container_init"
proof -
  have fits: "int (length (sectionRefs demo_env)) \<le> totalSections demo_env"
    by (simp add: hook_defs host_defs)
  have total: "totalSections demo_env = 5"
    by (simp add: hook_defs host_defs)
  have absent: "refAt (sectionRefs demo_env) 5 = None"
    by (simp add: hook_defs host_defs)
  from unregistered_target_noop [of demo_env 5 1000 container_init Smooth]
    unregistered_target_noop [of demo_env "- 1" 1000 container_init Smooth]
    fits total absent
  show ?thesis by simp
qed

subsection \<open>The watchdog\<close>

text \<open>
  Claim C7. If \<open>isScrolling\<close> is true and \<open>now - lastScrollTime\<close> exceeds 5000, one
  run of \<open>checkStuckState\<close> at \<open>now\<close> clears the flag, in particular when the
  transition started at \<open>now - 6000\<close>; a run while idle or within the threshold changes
  nothing.
\<close>

theorem checkStuckState_watchdog:
  "(isScrolling st \<and> now - lastScrollTime st > 5000 \<longrightarrow> \<not> isScrolling (checkStuckState now st))
   \<and> (isScrolling st \<and> lastScrollTime st = now - 6000 \<longrightarrow> \<not> isScrolling (checkStuckState now st))
   \<and> (\<not> isScrolling st \<or> now - lastScrollTime st \<le> 5000 \<longrightarrow> checkStuckState now st = st)"
  by (auto simp: checkStuckState_def clearTimeout_def Let_def split: option.splits)

theorem checkStuckState_watchdog_witness:
  "isScrolling (container_init\<lparr>isScrolling := True, lastScrollTime := 4000\<rparr>)
   \<and> lastScrollTime (container_init\<lparr>isScrolling := True, lastScrollTime := 4000\<rparr>) = 10000 - 6000
   \<and> \<not> isScrolling (checkStuckState 10000 (container_init\<lparr>isScrolling := True, lastScrollTime := 4000\<rparr>))
   \<and> checkStuckState 9000 (container_init\<lparr>isScrolling := True, lastScrollTime := 4000\<rparr>)
       = container_init\<lparr>isScrolling := True, lastScrollTime := 4000\<rparr>
   \<and> checkStuckState 10000 container_init = container_init"
proof -
  have stuck: "isScrolling (container_init\<lparr>isScrolling := True, lastScrollTime := 4000\<rparr>)
     \<and> lastScrollTime (container_init\<lparr>isScrolling := True, lastScrollTime := 4000\<rparr>) = 10000 - 6000"
    by simp
  have idle: "\<not> isScrolling container_init"
    by (simp add: container_init_def)
  from checkStuckState_watchdog [of "container_init\<lparr>isScrolling := True, lastScrollTime := 4000\<rparr>" 10000]
    checkStuckState_watchdog [of "container_init\<lparr>isScrolling := True, lastScrollTime := 4000\<rparr>" 9000]
    checkStuckState_watchdog [of container_init 10000]
    stuck idle
  show ?thesis by simp
qed

subsection \<open>Noise samples\<close>

text \<open>
  Claim C5 (the handler runs \<open>detectInertia\<close> before \<open>isValidDelta\<close>). A wheel event
  of delta 2, below \<open>minDelta = 4\<close>, leaves the navigation state as it was and
  overwrites the classifier's refs. The tail sample 40 that follows is then compared
  with 2, not with 50: it is labelled intentional, passes the normal throttle and moves
  to section 2; without the noise sample it is labelled momentum and suppressed.
\<close>

theorem wheel_noise_overwrites_classifier:
  "\<not> isValidDelta (detectionConfig demo_env) 2
   \<and> detection (run demo_env [(10000, Wheel 50), (10500, Intersection [(True, 1)])] container_init)
       = \<lparr>lastDelta = 50, lastDirection = 1, lastEventTime = 10000\<rparr>
   \<and> detection (deliver demo_env (10590, Wheel 2)
        (run demo_env [(10000, Wheel 50), (10500, Intersection [(True, 1)])] container_init))
       = \<lparr>lastDelta = 2, lastDirection = 1, lastEventTime = 10590\<rparr>
   \<and> nav (deliver demo_env (10590, Wheel 2)
        (run demo_env [(10000, Wheel 50), (10500, Intersection [(True, 1)])] container_init))
       = nav (run demo_env [(10000, Wheel 50), (10500, Intersection [(True, 1)])] container_init)
   \<and> currentSection (run demo_env tail_trace container_init) = 1
   \<and> currentSection (run demo_env noisy_tail_trace container_init) = 2"
  by (simp add: hook_defs host_defs tail_trace_def noisy_tail_trace_def)

subsection \<open>Steps rejected by the bounds check\<close>

text \<open>
  Claim C9. A wheel or touch step whose target index is out of range leaves the current
  section, the throttle timestamp, the transition flag and start, and the log of
  external calls as they were: \<open>updateThrottle\<close> is not called, and a following
  in-range step is not held back by the rejected one.
\<close>

theorem out_of_range_step_keeps_throttle:
  "(\<not> (0 \<le> currentSection st + (if deltaY > 0 then 1 else - 1)
        \<and> currentSection st + (if deltaY > 0 then 1 else - 1) < totalSections env) \<longrightarrow>
      nav (throttledWheelHandler env deltaY now st) = nav st)
   \<and> (\<not> (0 \<le> currentSection st + (if touchStartY st - touchEndY > 0 then 1 else - 1)
        \<and> currentSection st + (if touchStartY st - touchEndY > 0 then 1 else - 1) < totalSections env) \<longrightarrow>
      nav (handleTouchEnd env touchEndY now st) = nav st)"
  by (simp add: throttledWheelHandler_def handleTouchEnd_def nav_def Let_def split: prod.splits)

theorem out_of_range_step_keeps_throttle_witness:
  "totalSections four_env = 4 \<and> currentSection container_init = 0
   \<and> isValidDelta (detectionConfig four_env) (- 50)
   \<and> \<not> isScrolling container_init
   \<and> \<not> isThrottled (throttleConfig four_env) False 10000 (throttle container_init)
   \<and> nav (throttledWheelHandler four_env (- 50) 10000 container_init) = nav container_init
   \<and> nav container_init = (0, False, 0, 0, [])
   \<and> nav (throttledWheelHandler four_env 50 10001
            (throttledWheelHandler four_env (- 50) 10000 container_init))
       = (1, True, 10001, 10001, [ScrollIntoView 1 Smooth, UpdateURL 1])
   \<and> nav (handleTouchEnd four_env 300 10200 (handleTouchStart 200 10000 container_init))
       = nav (handleTouchStart 200 10000 container_init)"
proof -
  have wheel_out: "\<not> (0 \<le> currentSection container_init + (if (- 50 :: real) > 0 then 1 else - 1)
        \<and> currentSection container_init + (if (- 50 :: real) > 0 then 1 else - 1) < totalSections four_env)"
    by (simp add: container_init_def four_env_def useScrollContainer_def)
  have touch_out: "\<not> (0 \<le> currentSection (handleTouchStart 200 10000 container_init)
            + (if touchStartY (handleTouchStart 200 10000 container_init) - 300 > 0 then 1 else - 1)
        \<and> currentSection (handleTouchStart 200 10000 container_init)
            + (if touchStartY (handleTouchStart 200 10000 container_init) - 300 > 0 then 1 else - 1)
          < totalSections four_env)"
    by (simp add: container_init_def handleTouchStart_def)
  have wheel_kept: "nav (throttledWheelHandler four_env (- 50) 10000 container_init) = nav container_init"
    by (rule out_of_range_step_keeps_throttle
              [where st = container_init and deltaY = "- 50" and env = four_env and now = 10000,
               THEN conjunct1, THEN mp, OF wheel_out])
  have touch_kept: "nav (handleTouchEnd four_env 300 10200 (handleTouchStart 200 10000 container_init))
       = nav (handleTouchStart 200 10000 container_init)"
    by (rule out_of_range_step_keeps_throttle
              [where st = "handleTouchStart 200 10000 container_init" and touchEndY = 300
                 and env = four_env and now = 10200,
               THEN conjunct2, THEN mp, OF touch_out])
  have rest: "totalSections four_env = 4 \<and> currentSection container_init = 0
   \<and> isValidDelta (detectionConfig four_env) (- 50)
   \<and> \<not> isScrolling container_init
   \<and> \<not> isThrottled (throttleConfig four_env) False 10000 (throttle container_init)
   \<and> nav container_init = (0, False, 0, 0, [])
   \<and> nav (throttledWheelHandler four_env 50 10001
            (throttledWheelHandler four_env (- 50) 10000 container_init))
       = (1, True, 10001, 10001, [ScrollIntoView 1 Smooth, UpdateURL 1])"
    by (simp add: hook_defs four_env_def)
  show ?thesis
    using rest wheel_kept touch_kept by simp
qed

subsection \<open>The end-to-end scenario\<close>

text \<open>
  Claim C8. The instants of the scenario are counted from the instant \<open>origin\<close> of its
  first event, a value of \<^verbatim>\<open>Date.now()\<close> at least 600 past the initial throttle
  timestamp 0: the events arrive at \<open>origin\<close>, \<open>origin + 20\<close>, \<open>origin + 45\<close> and
  \<open>origin + 5000\<close>. Exactly two transitions are accepted: the first event is intentional
  and moves from 0 to 1; the second and third are labelled momentum and change nothing,
  with the momentum throttle closed at both instants (they stop at the transition flag,
  or at the throttle once the observer has confirmed the target in view); the safety
  timer has released the flag before the last event, which is intentional, finds the
  throttle open and moves from 1 to 2. The outcome is the same with a momentum duration
  of 1800.
\<close>

theorem end_to_end_scenario:
  assumes "600 \<le> origin"
  shows "map currentSection (runStates demo_env (scenario origin) container_init) = [1, 1, 1, 2]
   \<and> map lastScrollTime (runStates demo_env (scenario origin) container_init)
       = [origin, origin, origin, origin + 5000]
   \<and> map (lastThrottleTime \<circ> throttle) (runStates demo_env (scenario origin) container_init)
       = [origin, origin, origin, origin + 5000]
   \<and> effects (run demo_env (scenario origin) container_init)
       = [ScrollIntoView 1 Smooth, UpdateURL 1, ScrollIntoView 2 Smooth, UpdateURL 2]
   \<and> fst (detectAll (detectionConfig demo_env)
             [(50, origin), (40, origin + 20), (28, origin + 45), (10, origin + 5000)] detection_init)
       = [False, True, True, False]
   \<and> isThrottled (throttleConfig demo_env) True (origin + 20) \<lparr>lastThrottleTime = origin\<rparr>
   \<and> isThrottled (throttleConfig demo_env) True (origin + 45) \<lparr>lastThrottleTime = origin\<rparr>
   \<and> \<not> isThrottled (throttleConfig demo_env) False (origin + 5000) \<lparr>lastThrottleTime = origin\<rparr>
   \<and> map currentSection (runStates demo_env (scenario_confirmed origin) container_init)
       = [1, 1, 1, 1, 2]
   \<and> map isScrolling (runStates demo_env (scenario_confirmed origin) container_init)
       = [True, False, False, False, True]
   \<and> map currentSection
        (runStates (demo_env\<lparr>throttleConfig := \<lparr>normalThrottle = 600, momentumThrottle = 1800\<rparr>\<rparr>)
           (scenario_confirmed origin) container_init) = [1, 1, 1, 1, 2]"
  using assms
  by (simp add: hook_defs host_defs scenario_def scenario_confirmed_def)

theorem end_to_end_scenario_witness:
  "(600::real) \<le> 10000
   \<and> map currentSection (runStates demo_env (scenario 10000) container_init) = [1, 1, 1, 2]
   \<and> map lastScrollTime (runStates demo_env (scenario 10000) container_init)
       = [10000, 10000, 10000, 15000]
   \<and> effects (run demo_env (scenario 10000) container_init)
       = [ScrollIntoView 1 Smooth, UpdateURL 1, ScrollIntoView 2 Smooth, UpdateURL 2]"
proof -
  have late: "(600::real) \<le> 10000" by simp
  from end_to_end_scenario [OF late] late show ?thesis by simp
qed

end
